theory Spec2Isabelle
  imports Main
begin

section \<open>Python string primitives used by index.py\<close>

text \<open>
  Python strings are modelled as \<open>string\<close>: a character is a code point below 256.
  Only the
  methods that index.py calls are modelled: \<open>str.strip()\<close>, \<open>str.replace(old, new)\<close>,
  \<open>str.split(sep)\<close>, the operator \<open>in\<close> and the formatting of a value inside an
  f-string.
\<close>

definition py_isspace :: "char \<Rightarrow> bool" where
  \<comment> \<open>the code points below 256 for which \<open>str.isspace\<close> holds: TAB, LF, VT, FF, CR,
      FS, GS, RS, US, the blank, NEL (U+0085) and the no-break space (U+00A0)\<close>
  "py_isspace c = (of_char c \<in> {9, 10, 11, 12, 13, 28, 29, 30, 31, 32, 133, 160 :: nat})"

definition py_strip :: "string \<Rightarrow> string" where
  "py_strip s = rev (dropWhile py_isspace (rev (dropWhile py_isspace s)))"

definition startswith :: "string \<Rightarrow> string \<Rightarrow> bool" where
  "startswith s p = (take (length p) s = p)"

fun py_replace :: "string \<Rightarrow> string \<Rightarrow> string \<Rightarrow> string" where
  \<comment> \<open>\<open>s.replace(old, new)\<close>: every non-overlapping occurrence, leftmost first;
      an empty \<open>old\<close> matches before every character and at the end\<close>
  "py_replace [] old new = (if old = [] then new else [])"
| "py_replace (c # cs) old new =
     (if old = [] then new @ c # py_replace cs old new
      else if startswith (c # cs) old
        then new @ py_replace (drop (length old - 1) cs) old new
      else c # py_replace cs old new)"

fun split_from :: "string \<Rightarrow> string \<Rightarrow> string \<Rightarrow> string list" where
  \<comment> \<open>the scan of \<open>s.split(sep)\<close> for a non-empty \<open>sep\<close>; \<open>cur\<close> holds the
      characters of the current segment, last one first\<close>
  "split_from sep cur [] = [rev cur]"
| "split_from sep cur (c # cs) =
     (if sep \<noteq> [] \<and> startswith (c # cs) sep
        then rev cur # split_from sep [] (drop (length sep - 1) cs)
      else split_from sep (c # cur) cs)"

definition py_split :: "string \<Rightarrow> string \<Rightarrow> string list" where
  \<comment> \<open>index.py only splits at the literals \<open>'//'\<close> and \<open>'/'\<close>; Python raises
      ValueError for an empty separator, which never arises here\<close>
  "py_split s sep = split_from sep [] s"

fun py_in :: "string \<Rightarrow> string \<Rightarrow> bool" where
  \<comment> \<open>\<open>sub in s\<close>\<close>
  "py_in sub [] = (sub = [])"
| "py_in sub (c # cs) = (startswith (c # cs) sub \<or> py_in sub cs)"

definition fmt :: "string option \<Rightarrow> string" where
  \<comment> \<open>a value that is a str or None, formatted inside an f-string\<close>
  "fmt v = (case v of None \<Rightarrow> ''None'' | Some s \<Rightarrow> s)"

section \<open>Values, exceptions and the outside world\<close>

datatype exn =
    HTTPException nat string  \<comment> \<open>fastapi's HTTPException: status_code and detail\<close>
  | IndexError string         \<comment> \<open>the other exceptions carry the text that \<open>str(error)\<close> gives\<close>
  | KeyError string
  | LibraryError string       \<comment> \<open>whatever \<open>requests.get\<close> or \<open>BeautifulSoup\<close> raise\<close>

record element =
  elem_text :: string                   \<comment> \<open>\<open>element.text\<close>\<close>
  attrs :: "(string \<times> string) list"    \<comment> \<open>\<open>element.attrs\<close>\<close>

text \<open>
  A parsed document is known to index.py only through \<open>soup.select_one(selector)\<close>,
  which gives the first matching element or None.
\<close>

type_synonym soup = "string \<Rightarrow> element option"

record product =
  brandName :: string
  productName :: string
  productDescription :: string
  productImage :: "string option"
  productPrice :: "string option"
  productRating :: "string option"

record csv_data =
  title :: string
  rating :: "string option"
  price :: "string option"
  image :: "string option"
  description :: "string option"
  url :: string

record AdRequest =
  req_url :: string
  gender :: string
  ageGroup :: string

record response =
  product_data :: product
  adCopy :: string

text \<open>
  What index.py takes from its libraries and from the network: the fetch and the parser
  (either may raise), the text of \<open>str(HTTPException(status_code, detail))\<close>, the text of a
  formatted dict, and the number the random generator draws.
\<close>

record env =
  requests_get :: "string \<Rightarrow> exn + string"      \<comment> \<open>\<open>requests.get(url, headers=...).text\<close>\<close>
  BeautifulSoup :: "string \<Rightarrow> exn + soup"        \<comment> \<open>\<open>BeautifulSoup(text, "lxml")\<close>\<close>
  str_HTTPException :: "nat \<Rightarrow> string \<Rightarrow> string"
  str_dict :: "product \<Rightarrow> string"
  draw :: nat

text \<open>
  The state that index.py changes: the lines printed to standard output, the file
  product_details.csv (None while it does not exist, else its rows) and the URLs
  requested from the network. Writing to the file and printing are taken to succeed.
\<close>

record world =
  stdout :: "string list"
  csv_file :: "string list list option"
  fetched :: "string list"

definition print :: "string \<Rightarrow> world \<Rightarrow> world" where
  "print line w = w\<lparr>stdout := stdout w @ [line]\<rparr>"

fun str_exn :: "env \<Rightarrow> exn \<Rightarrow> string" where
  "str_exn e (HTTPException code detail) = str_HTTPException e code detail"
| "str_exn e (IndexError m) = m"
| "str_exn e (KeyError m) = m"
| "str_exn e (LibraryError m) = m"

definition py_index :: "'a list \<Rightarrow> nat \<Rightarrow> exn + 'a" where
  \<comment> \<open>\<open>xs[i]\<close> for a literal index \<open>i \<ge> 0\<close>\<close>
  "py_index xs i =
     (if i < length xs then Inr (xs ! i) else Inl (IndexError ''list index out of range''))"

definition dict_get :: "('k \<times> 'v) list \<Rightarrow> 'k \<Rightarrow> 'v \<Rightarrow> 'v" where
  \<comment> \<open>\<open>d.get(k, default)\<close>\<close>
  "dict_get d k dflt = (case map_of d k of None \<Rightarrow> dflt | Some v \<Rightarrow> v)"

definition dict_item :: "(string \<times> 'v) list \<Rightarrow> string \<Rightarrow> exn + 'v" where
  \<comment> \<open>\<open>d[k]\<close>\<close>
  "dict_item d k =
     (case map_of d k of None \<Rightarrow> Inl (KeyError ([CHR 0x27] @ k @ [CHR 0x27])) | Some v \<Rightarrow> Inr v)"

definition truthy :: "string option \<Rightarrow> bool" where
  \<comment> \<open>\<open>if v\<close> for a value that is a str or None\<close>
  "truthy v = (case v of None \<Rightarrow> False | Some s \<Rightarrow> s \<noteq> [])"

definition py_or :: "string option \<Rightarrow> string \<Rightarrow> string" where
  \<comment> \<open>\<open>v or dflt\<close> for a value that is a str or None\<close>
  "py_or v dflt = (case v of None \<Rightarrow> dflt | Some s \<Rightarrow> if s \<noteq> [] then s else dflt)"

text \<open>
  The requests library validates a URL before it fetches: a URL without a scheme and a
  host, and so every URL without \<open>//\<close>, raises MissingSchema, InvalidURL or
  InvalidSchema. An environment that fetches as the library does has this property.
\<close>

definition requests_validates :: "env \<Rightarrow> bool" where
  "requests_validates e = (\<forall>u. \<not> py_in ''//'' u \<longrightarrow> isl (requests_get e u))"

section \<open>save_to_csv\<close>

definition headers :: "string list" where
  "headers = [''Title'', ''Rating'', ''Price'', ''Image URL'', ''Description'', ''Product URL'']"

definition cell :: "string option \<Rightarrow> string" where
  \<comment> \<open>\<open>csv.writer\<close> writes None as the empty string\<close>
  "cell v = (case v of None \<Rightarrow> [] | Some s \<Rightarrow> s)"

definition csv_row :: "csv_data \<Rightarrow> string list" where
  "csv_row d =
     [title d, cell (rating d), cell (price d), cell (image d), cell (description d), url d]"

definition save_to_csv :: "csv_data \<Rightarrow> world \<Rightarrow> world" where
  "save_to_csv d w =
     (let file_exists = (csv_file w \<noteq> None);
          file = (case csv_file w of None \<Rightarrow> [] | Some rows \<Rightarrow> rows);
          file = (if \<not> file_exists then file @ [headers] else file);
          file = file @ [csv_row d]
      in w\<lparr>csv_file := Some file\<rparr>)"

section \<open>scrape_amazon_product\<close>

definition scrape_title :: "soup \<Rightarrow> string" where
  "scrape_title soup =
     (case soup ''#productTitle'' of
        Some title_element \<Rightarrow> py_strip (elem_text title_element)
      | None \<Rightarrow> ''No title available'')"

definition scrape_rating :: "soup \<Rightarrow> string option" where
  "scrape_rating soup =
     (let rating_text =
            (case soup ''#acrPopover'' of
               Some rating_element \<Rightarrow> Some (dict_get (attrs rating_element) ''title'' [])
             | None \<Rightarrow> None)
      in case rating_text of
           Some t \<Rightarrow>
             if t \<noteq> [] then Some (py_strip (py_replace t ''out of 5 stars'' [])) else None
         | None \<Rightarrow> None)"

definition scrape_price :: "soup \<Rightarrow> string option" where
  "scrape_price soup =
     (case soup ''span.a-price span.a-offscreen'' of
        Some price_element \<Rightarrow> Some (py_strip (elem_text price_element))
      | None \<Rightarrow> None)"

definition scrape_image :: "soup \<Rightarrow> string option" where
  "scrape_image soup =
     (case soup ''#landingImage'' of
        Some image_element \<Rightarrow> map_of (attrs image_element) ''src''
      | None \<Rightarrow> None)"

definition scrape_description :: "soup \<Rightarrow> string option" where
  "scrape_description soup =
     (case soup ''#feature-bullets'' of
        Some description_element \<Rightarrow> Some (py_strip (elem_text description_element))
      | None \<Rightarrow> None)"

definition brand_name :: "string \<Rightarrow> exn + string" where
  \<comment> \<open>\<open>url.split('//')[1].split('/')[0].replace('www.amazon', 'Amazon')\<close>\<close>
  "brand_name u =
     (case py_index (py_split u ''//'') 1 of
        Inl e \<Rightarrow> Inl e
      | Inr rest \<Rightarrow>
          (case py_index (py_split rest ''/'') 0 of
             Inl e \<Rightarrow> Inl e
           | Inr host \<Rightarrow> Inr (py_replace host ''www.amazon'' ''Amazon'')))"

definition scrape_try :: "env \<Rightarrow> string \<Rightarrow> world \<Rightarrow> (exn + product) \<times> world" where
  \<comment> \<open>the body of the \<open>try\<close> statement\<close>
  "scrape_try e u w =
     (let w = w\<lparr>fetched := fetched w @ [u]\<rparr> in
      case requests_get e u of
        Inl err \<Rightarrow> (Inl err, w)
      | Inr response_text \<Rightarrow>
          (case BeautifulSoup e response_text of
             Inl err \<Rightarrow> (Inl err, w)
           | Inr soup \<Rightarrow>
               (let t = scrape_title soup;
                    r = scrape_rating soup;
                    p = scrape_price soup;
                    i = scrape_image soup;
                    d = scrape_description soup
                in case brand_name u of
                     Inl err \<Rightarrow> (Inl err, w)
                   | Inr b \<Rightarrow>
                       (let w = save_to_csv
                                  \<lparr>title = t, rating = r, price = p, image = i,
                                   description = d, url = u\<rparr> w
                        in (Inr \<lparr>brandName = b,
                                 productName = t,
                                 productDescription = py_or d ''No description available'',
                                 productImage = i,
                                 productPrice = p,
                                 productRating = r\<rparr>, w)))))"

definition scrape_amazon_product :: "env \<Rightarrow> string \<Rightarrow> world \<Rightarrow> (exn + product) \<times> world" where
  "scrape_amazon_product e u w =
     (case scrape_try e u w of
        (Inr pd, w') \<Rightarrow> (Inr pd, w')
      | (Inl err, w') \<Rightarrow>
          (Inl (HTTPException 500 ''Failed to scrape the product data''),
           print (''Error scraping product data: '' @ str_exn e err) w'))"

section \<open>get_target_description and generate_simple_ad\<close>

definition descriptions :: "(string \<times> (string \<times> string) list) list" where
  "descriptions =
     [(''female'',
        [(''9-18'', ''The ad should appeal to young girls with a focus on fun, color, and trendy designs.''),
         (''18-25'', ''The ad should emphasize style, comfort, and empowerment, as young women in this age group often look for products that complement their personal style and lifestyle.''),
         (''25-40'', ''For women in this age group, the ad should focus on a balance of comfort, elegance, and professional appeal.''),
         (''40-60'', ''The ad should emphasize comfort, sophistication, and practicality, appealing to women who value quality and timeless style.''),
         (''60+'', ''The ad should highlight comfort, elegance, and the products ability to bring relaxation and ease to daily life.'')]),
      (''male'',
        [(''9-18'', ''The ad should appeal to young boys or teens, focusing on energy, coolness, and modern trends.''),
         (''18-25'', ''The ad should focus on style, confidence, and boldness, appealing to young men who are exploring their identity and fashion preferences.''),
         (''25-40'', ''For men in this age group, the ad should emphasize practicality, style, and versatility.''),
         (''40-60'', ''The ad should appeal to men with a focus on quality, durability, and classic style, suitable for both personal and professional settings.''),
         (''60+'', ''The ad should highlight comfort, ease of use, and thoughtful gifts for loved ones.'')]),
      (''others'',
        [(''*'', ''The ad should emphasize inclusivity, comfort, and a sense of belonging, appealing to individuals of diverse identities who value style and self-expression across all age groups.'')])]"

definition get_target_description :: "string \<Rightarrow> string \<Rightarrow> exn + string" where
  "get_target_description g age_group =
     (if g = ''others''
      then (case dict_item descriptions ''others'' of
              Inl err \<Rightarrow> Inl err
            | Inr d \<Rightarrow> dict_item d ''*'')
      else Inr (dict_get (dict_get descriptions g []) age_group []))"

definition rating_clause :: "product \<Rightarrow> string" where
  \<comment> \<open>the local \<open>rating_text\<close> of generate_simple_ad\<close>
  "rating_clause pd =
     (if truthy (productRating pd)
      then '' Rated '' @ fmt (productRating pd) @ '' stars!''
      else [])"

definition ad_templates :: "product \<Rightarrow> string list" where
  "ad_templates pd =
     [''Discover '' @ productName pd @ ''! '' @ rating_clause pd @ '' Available now at ''
        @ fmt (productPrice pd) @ ''.'',
      ''Introducing the amazing '' @ productName pd @ '' - perfect for you! '' @ rating_clause pd,
      ''Don'' @ [CHR 0x27] @ ''t miss out on '' @ productName pd @ ''! Get yours at ''
        @ fmt (productPrice pd) @ ''.'',
      ''Experience the excellence of '' @ productName pd @ ''! '' @ rating_clause pd,
      ''Transform your life with '' @ productName pd @ ''! Now only ''
        @ fmt (productPrice pd) @ ''!'']"

definition random_choice :: "nat \<Rightarrow> 'a list \<Rightarrow> exn + 'a" where
  \<comment> \<open>\<open>random.choice(seq)\<close> is \<open>seq[randbelow(len(seq))]\<close>; the number drawn is
      reduced below the length, and an empty sequence raises IndexError\<close>
  "random_choice n xs =
     (if xs = [] then Inl (IndexError ''Cannot choose from an empty sequence'')
      else py_index xs (n mod length xs))"

definition generate_simple_ad :: "product \<Rightarrow> string \<Rightarrow> string \<Rightarrow> nat \<Rightarrow> exn + string" where
  "generate_simple_ad pd g age_group n =
     (case get_target_description g age_group of
        Inl err \<Rightarrow> Inl err
      | Inr target_desc \<Rightarrow>
          (case random_choice n (ad_templates pd) of
             Inl err \<Rightarrow> Inl err
           | Inr base_ad \<Rightarrow>
               Inr (if target_desc \<noteq> [] then base_ad @ [CHR 0x0A] @ target_desc else base_ad)))"

section \<open>create_ad\<close>

definition on_error :: "env \<Rightarrow> exn \<Rightarrow> world \<Rightarrow> (exn + response) \<times> world" where
  \<comment> \<open>the \<open>except Exception as error\<close> clause of create_ad\<close>
  "on_error e err w =
     (Inl (HTTPException 500 (''Error generating ad: '' @ str_exn e err)),
      print (''Error generating ad: '' @ str_exn e err) w)"

definition create_ad :: "env \<Rightarrow> AdRequest \<Rightarrow> world \<Rightarrow> (exn + response) \<times> world" where
  "create_ad e request w =
     (if req_url request = [] then (Inl (HTTPException 400 ''No URL provided''), w)
      else
        (let w = print (''Received URL: '' @ req_url request) w in
         case scrape_amazon_product e (req_url request) w of
           (Inl err, w) \<Rightarrow> on_error e err w
         | (Inr pd, w) \<Rightarrow>
             (let w = print (''Scraped Product Data: '' @ str_dict e pd) w in
              case generate_simple_ad pd (gender request) (ageGroup request) (draw e) of
                Inl err \<Rightarrow> on_error e err w
              | Inr ad_copy \<Rightarrow> (Inr \<lparr>product_data = pd, adCopy = ad_copy\<rparr>, w))))"

section \<open>Example inputs\<close>

definition blank_soup :: soup where
  \<comment> \<open>a document in which no selector matches\<close>
  "blank_soup = (\<lambda>selector. None)"

definition widget_soup :: soup where
  \<comment> \<open>a document with all five anchors\<close>
  "widget_soup = map_of
     [(''#productTitle'', \<lparr>elem_text = ''  Widget  '', attrs = []\<rparr>),
      (''#acrPopover'', \<lparr>elem_text = ''4.5'', attrs = [(''title'', ''4.5 out of 5 stars'')]\<rparr>),
      (''span.a-price span.a-offscreen'', \<lparr>elem_text = '' $19.99'', attrs = []\<rparr>),
      (''#landingImage'', \<lparr>elem_text = [], attrs = [(''src'', ''https://img.example/w.jpg'')]\<rparr>),
      (''#feature-bullets'', \<lparr>elem_text = '' Sturdy. '', attrs = []\<rparr>)]"

definition padded_soup :: soup where
  \<comment> \<open>a document whose rating title has whitespace around its parts, a no-break space
      and a line feed at its end\<close>
  "padded_soup = map_of
     [(''#productTitle'', \<lparr>elem_text = ''Widget'', attrs = []\<rparr>),
      (''#acrPopover'',
         \<lparr>elem_text = [],
          attrs = [(''title'', '' 4.5  out of 5 stars'' @ [CHR 0xA0, CHR 0x0A])]\<rparr>)]"

definition unrated_soup :: soup where
  \<comment> \<open>a document whose rating anchor has a title that is the bare phrase\<close>
  "unrated_soup = map_of
     [(''#productTitle'', \<lparr>elem_text = ''Widget'', attrs = []\<rparr>),
      (''#acrPopover'', \<lparr>elem_text = [], attrs = [(''title'', ''out of 5 stars'')]\<rparr>)]"

definition serving :: "soup \<Rightarrow> nat \<Rightarrow> env" where
  \<comment> \<open>every fetch succeeds and parses to the given document; the generator draws \<open>n\<close>\<close>
  "serving s n =
     \<lparr>requests_get = (\<lambda>u. Inr ''<html></html>''),
      BeautifulSoup = (\<lambda>t. Inr s),
      str_HTTPException = (\<lambda>code detail. detail),
      str_dict = productName,
      draw = n\<rparr>"

definition web :: "soup \<Rightarrow> nat \<Rightarrow> env" where
  \<comment> \<open>a fetch succeeds for the URLs with \<open>//\<close> only and parses to the given document\<close>
  "web s n =
     \<lparr>requests_get =
        (\<lambda>u. if py_in ''//'' u then Inr ''<html></html>''
             else Inl (LibraryError ''Invalid URL: No scheme supplied'')),
      BeautifulSoup = (\<lambda>t. Inr s),
      str_HTTPException = (\<lambda>code detail. detail),
      str_dict = productName,
      draw = n\<rparr>"

definition offline :: env where
  \<comment> \<open>every fetch raises\<close>
  "offline =
     \<lparr>requests_get = (\<lambda>u. Inl (LibraryError ''Connection refused'')),
      BeautifulSoup = (\<lambda>t. Inr blank_soup),
      str_HTTPException = (\<lambda>code detail. detail),
      str_dict = productName,
      draw = 0\<rparr>"

definition unparsable :: env where
  \<comment> \<open>every fetch succeeds and the parser raises\<close>
  "unparsable =
     \<lparr>requests_get = (\<lambda>u. Inr ''<html></html>''),
      BeautifulSoup = (\<lambda>t. Inl (LibraryError ''Could not find a tree builder'')),
      str_HTTPException = (\<lambda>code detail. detail),
      str_dict = productName,
      draw = 0\<rparr>"

definition fresh :: world where
  \<comment> \<open>nothing printed, no log file, nothing fetched\<close>
  "fresh = \<lparr>stdout = [], csv_file = None, fetched = []\<rparr>"

definition widget :: product where
  "widget =
     \<lparr>brandName = ''Amazon.com'', productName = ''Widget'',
      productDescription = ''Sturdy.'', productImage = Some ''https://img.example/w.jpg'',
      productPrice = Some ''$19.99'', productRating = Some ''4.5''\<rparr>"

definition unrated_widget :: product where
  \<comment> \<open>what scrape_amazon_product returns for \<open>unrated_soup\<close>\<close>
  "unrated_widget =
     \<lparr>brandName = ''Amazon.com'', productName = ''Widget'',
      productDescription = ''No description available'', productImage = None,
      productPrice = None, productRating = Some []\<rparr>"

definition empty_request :: AdRequest where
  "empty_request = \<lparr>req_url = [], gender = ''female'', ageGroup = ''25-40''\<rparr>"

definition widget_request :: AdRequest where
  "widget_request =
     \<lparr>req_url = ''https://www.amazon.com/dp/X'', gender = ''female'', ageGroup = ''25-40''\<rparr>"

section \<open>The specification's reading of the composer\<close>

definition spec_rating_clause :: "product \<Rightarrow> string" where
  \<comment> \<open>the rating clause as the specification words it: " Rated {rating} stars!" if
      productRating is present, otherwise the empty string\<close>
  "spec_rating_clause pd =
     (case productRating pd of None \<Rightarrow> [] | Some r \<Rightarrow> '' Rated '' @ r @ '' stars!'')"

definition table_pairs :: "(string \<times> string) list" where
  \<comment> \<open>the (gender, ageGroup) pairs that the table \<open>descriptions\<close> holds\<close>
  "table_pairs = concat (map (\<lambda>(g, m). map (\<lambda>(a, s). (g, a)) m) descriptions)"

section \<open>Facts about the string primitives\<close>

lemma startswith_append: "startswith (p @ r) p"
  by (simp add: startswith_def)

lemma startswith_Cons_hd: "startswith (c # cs) p \<Longrightarrow> p \<noteq> [] \<Longrightarrow> hd p = c"
  by (cases p) (auto simp: startswith_def)

lemma drop_sep_tail: "sep \<noteq> [] \<Longrightarrow> drop (length sep - 1) (tl (sep @ r)) = r"
  by (cases sep) auto

lemma split_from_skip:
  "sep \<noteq> [] \<Longrightarrow> hd sep \<notin> set a \<Longrightarrow>
   split_from sep cur (a @ sep @ r) = (rev cur @ a) # split_from sep [] r"
proof (induction a arbitrary: cur)
  case Nil
  obtain c cs where sep: "sep = c # cs" using Nil.prems(1) by (cases sep) auto
  show ?case by (simp add: sep startswith_def)
next
  case (Cons x a)
  have "\<not> startswith (x # a @ sep @ r) sep"
    using Cons.prems startswith_Cons_hd by fastforce
  then show ?case using Cons by simp
qed

lemma split_from_none:
  "\<not> py_in sep s \<Longrightarrow> split_from sep cur s = [rev cur @ s]"
  by (induction s arbitrary: cur) auto

lemma py_in_iff: "py_in sub s \<longleftrightarrow> (\<exists>xs ys. s = xs @ sub @ ys)"
proof (induction s)
  case Nil
  show ?case by auto
next
  case (Cons c cs)
  show ?case
  proof
    assume "py_in sub (c # cs)"
    then consider "startswith (c # cs) sub" | "py_in sub cs" by auto
    then show "\<exists>xs ys. c # cs = xs @ sub @ ys"
    proof cases
      case 1
      have "take (length sub) (c # cs) @ drop (length sub) (c # cs) = c # cs"
        by (rule append_take_drop_id)
      with 1 have "c # cs = [] @ sub @ drop (length sub) (c # cs)"
        unfolding startswith_def by simp
      then show ?thesis by blast
    next
      case 2
      then obtain xs ys where "cs = xs @ sub @ ys" using Cons.IH by auto
      then have "c # cs = (c # xs) @ sub @ ys" by simp
      then show ?thesis by blast
    qed
  next
    assume "\<exists>xs ys. c # cs = xs @ sub @ ys"
    then obtain xs ys where e: "c # cs = xs @ sub @ ys" by auto
    show "py_in sub (c # cs)"
    proof (cases xs)
      case Nil
      have "startswith (c # cs) sub" using e Nil by (simp add: startswith_def)
      then show ?thesis by simp
    next
      case (Cons x xs')
      then have "cs = xs' @ sub @ ys" using e by simp
      then show ?thesis using Cons.IH by auto
    qed
  qed
qed

lemma py_in_hd: "sep \<noteq> [] \<Longrightarrow> hd sep \<notin> set s \<Longrightarrow> \<not> py_in sep s"
  by (induction s) (auto dest: startswith_Cons_hd)

lemma split_from_nonempty: "split_from sep cur s \<noteq> []"
  by (induction s arbitrary: cur) auto

lemma split_from_two:
  "sep \<noteq> [] \<Longrightarrow> py_in sep s \<Longrightarrow> \<exists>a b rest. split_from sep cur s = a # b # rest"
proof (induction s arbitrary: cur)
  case Nil
  then show ?case by simp
next
  case (Cons c cs)
  show ?case
  proof (cases "startswith (c # cs) sep")
    case True
    have "split_from sep [] (drop (length sep - 1) cs) \<noteq> []"
      by (rule split_from_nonempty)
    then obtain b rest where "split_from sep [] (drop (length sep - 1) cs) = b # rest"
      by (cases "split_from sep [] (drop (length sep - 1) cs)") auto
    then show ?thesis using True Cons.prems by simp
  next
    case False
    then show ?thesis using Cons by simp
  qed
qed

section \<open>Facts about scrape_amazon_product\<close>

lemma brand_name_no_slashes:
  "\<not> py_in ''//'' u \<Longrightarrow> brand_name u = Inl (IndexError ''list index out of range'')"
  by (simp add: brand_name_def py_split_def split_from_none py_index_def)

lemma brand_name_slashes:
  assumes "py_in ''//'' u"
  shows "\<exists>b. brand_name u = Inr b"
proof -
  obtain a b rest where s: "split_from ''//'' [] u = a # b # rest"
    using split_from_two [OF _ assms] by blast
  have "split_from ''/'' [] b \<noteq> []" by (rule split_from_nonempty)
  then obtain h hs where h: "split_from ''/'' [] b = h # hs"
    by (cases "split_from ''/'' [] b") auto
  show ?thesis
    by (simp add: brand_name_def py_split_def py_index_def s h)
qed


lemma scrape_try_ok:
  assumes "requests_get e u = Inr body" and "BeautifulSoup e body = Inr soup"
    and "brand_name u = Inr b"
  shows "scrape_try e u w =
    (Inr \<lparr>brandName = b, productName = scrape_title soup,
          productDescription = py_or (scrape_description soup) ''No description available'',
          productImage = scrape_image soup, productPrice = scrape_price soup,
          productRating = scrape_rating soup\<rparr>,
     save_to_csv \<lparr>title = scrape_title soup, rating = scrape_rating soup,
                  price = scrape_price soup, image = scrape_image soup,
                  description = scrape_description soup, url = u\<rparr>
       (w\<lparr>fetched := fetched w @ [u]\<rparr>))"
  using assms by (simp add: scrape_try_def Let_def)

lemma scrape_ok:
  assumes "requests_get e u = Inr body" and "BeautifulSoup e body = Inr soup"
    and "brand_name u = Inr b"
  shows "scrape_amazon_product e u w =
    (Inr \<lparr>brandName = b, productName = scrape_title soup,
          productDescription = py_or (scrape_description soup) ''No description available'',
          productImage = scrape_image soup, productPrice = scrape_price soup,
          productRating = scrape_rating soup\<rparr>,
     save_to_csv \<lparr>title = scrape_title soup, rating = scrape_rating soup,
                  price = scrape_price soup, image = scrape_image soup,
                  description = scrape_description soup, url = u\<rparr>
       (w\<lparr>fetched := fetched w @ [u]\<rparr>))"
  by (simp add: scrape_amazon_product_def scrape_try_ok [OF assms])

lemma scrape_try_cases:
  obtains (fetch) c where "requests_get e u = Inl c"
      and "scrape_try e u w = (Inl c, w\<lparr>fetched := fetched w @ [u]\<rparr>)"
  | (parse) body c where "requests_get e u = Inr body" and "BeautifulSoup e body = Inl c"
      and "scrape_try e u w = (Inl c, w\<lparr>fetched := fetched w @ [u]\<rparr>)"
  | (brand) body soup c where "requests_get e u = Inr body" and "BeautifulSoup e body = Inr soup"
      and "brand_name u = Inl c"
      and "scrape_try e u w = (Inl c, w\<lparr>fetched := fetched w @ [u]\<rparr>)"
  | (ok) body soup b where "requests_get e u = Inr body" and "BeautifulSoup e body = Inr soup"
      and "brand_name u = Inr b"
proof (cases "requests_get e u")
  case (Inl c)
  then show ?thesis using fetch by (simp add: scrape_try_def Let_def)
next
  case body: (Inr body)
  show ?thesis
  proof (cases "BeautifulSoup e body")
    case (Inl c)
    then show ?thesis using parse body by (simp add: scrape_try_def Let_def)
  next
    case soup: (Inr soup)
    show ?thesis
    proof (cases "brand_name u")
      case (Inl c)
      then show ?thesis using brand body soup by (simp add: scrape_try_def Let_def)
    next
      case (Inr b)
      then show ?thesis using ok body soup by simp
    qed
  qed
qed

lemma scrape_failed:
  assumes "scrape_try e u w = (Inl c, w')"
  shows "scrape_amazon_product e u w =
    (Inl (HTTPException 500 ''Failed to scrape the product data''),
     print (''Error scraping product data: '' @ str_exn e c) w')"
  using assms by (simp add: scrape_amazon_product_def)

lemma scrape_error_generic:
  assumes "fst (scrape_amazon_product e u w) = Inl err"
  shows "err = HTTPException 500 ''Failed to scrape the product data''"
  using assms by (auto simp: scrape_amazon_product_def split: prod.splits sum.splits)

section \<open>Evaluation of the examples\<close>

lemmas eval_defs =
  scrape_amazon_product_def scrape_try_def brand_name_def py_split_def py_index_def
  startswith_def print_def Let_def save_to_csv_def csv_row_def cell_def headers_def
  scrape_title_def scrape_rating_def scrape_price_def scrape_image_def
  scrape_description_def truthy_def py_or_def fmt_def dict_get_def py_strip_def py_isspace_def
  serving_def web_def blank_soup_def widget_soup_def padded_soup_def unrated_soup_def
  offline_def unparsable_def
  fresh_def

section \<open>C9: a URL without a double slash\<close>

text \<open>
  Claim C9. For every URL that does not contain \<open>//\<close>, scrape_amazon_product raises the
  HTTPException with status 500 and the detail "Failed to scrape the product data",
  whatever the fetch and the parser return; nothing is written to the log file; and when
  the fetch and the parser both succeed, the cause printed is the IndexError of
  \<open>url.split('//')[1]\<close>.
\<close>

theorem url_without_slashes_fails:
  assumes "\<not> py_in ''//'' u"
  shows "fst (scrape_amazon_product e u w) =
           Inl (HTTPException 500 ''Failed to scrape the product data'')
       \<and> csv_file (snd (scrape_amazon_product e u w)) = csv_file w
       \<and> (\<forall>body soup. requests_get e u = Inr body \<and> BeautifulSoup e body = Inr soup \<longrightarrow>
            stdout (snd (scrape_amazon_product e u w)) =
              stdout w @ [''Error scraping product data: list index out of range''])"
proof -
  have b: "brand_name u = Inl (IndexError ''list index out of range'')"
    using assms by (rule brand_name_no_slashes)
  show ?thesis
  proof (cases rule: scrape_try_cases [of e u w])
    case (fetch c)
    then show ?thesis by (simp add: scrape_failed print_def)
  next
    case (parse body c)
    then show ?thesis by (simp add: scrape_failed print_def)
  next
    case (brand body soup c)
    then show ?thesis using b by (auto simp: scrape_failed print_def)
  next
    case (ok body soup b')
    then show ?thesis using b by simp
  qed
qed

theorem url_without_slashes_fails_witness:
  "\<not> py_in ''//'' ''www.amazon.com/dp/X''
   \<and> requests_get (serving widget_soup 0) ''www.amazon.com/dp/X'' = Inr ''<html></html>''
   \<and> BeautifulSoup (serving widget_soup 0) ''<html></html>'' = Inr widget_soup
   \<and> scrape_amazon_product (serving widget_soup 0) ''www.amazon.com/dp/X'' fresh =
       (Inl (HTTPException 500 ''Failed to scrape the product data''),
        \<lparr>stdout = [''Error scraping product data: list index out of range''],
         csv_file = None, fetched = [''www.amazon.com/dp/X'']\<rparr>)"
  using url_without_slashes_fails [of "''www.amazon.com/dp/X''" "serving widget_soup 0" fresh]
  by (simp add: eval_defs)

section \<open>Facts about brand names and ratings\<close>

lemma split_from_pass:
  "hd sep \<notin> set a \<Longrightarrow> split_from sep cur (a @ r) = split_from sep (rev a @ cur) r"
proof (induction a arbitrary: cur)
  case Nil
  show ?case by simp
next
  case (Cons x a)
  have "sep \<noteq> [] \<Longrightarrow> \<not> startswith (x # a @ r) sep"
    using Cons.prems startswith_Cons_hd by fastforce
  then show ?case using Cons by auto
qed

lemma hd_split_from:
  "\<exists>p q. s = p @ q \<and> hd (split_from sep cur s) = rev cur @ p"
proof (induction s arbitrary: cur)
  case Nil
  show ?case by simp
next
  case (Cons c cs)
  show ?case
  proof (cases "sep \<noteq> [] \<and> startswith (c # cs) sep")
    case True
    then have "c # cs = [] @ (c # cs) \<and> hd (split_from sep cur (c # cs)) = rev cur @ []"
      by simp
    then show ?thesis by blast
  next
    case False
    obtain p q where pq: "cs = p @ q" "hd (split_from sep (c # cur) cs) = rev (c # cur) @ p"
      using Cons.IH by blast
    have "c # cs = (c # p) @ q \<and> hd (split_from sep cur (c # cs)) = rev cur @ (c # p)"
      using False pq by simp
    then show ?thesis by blast
  qed
qed

lemma py_index_0: "xs \<noteq> [] \<Longrightarrow> py_index xs 0 = Inr (hd xs)"
  by (cases xs) (auto simp: py_index_def)

lemma py_index_1: "ys \<noteq> [] \<Longrightarrow> py_index (x # ys) 1 = Inr (hd ys)"
  by (cases ys) (auto simp: py_index_def)

lemma host_segment:
  assumes "CHR ''/'' \<notin> set host" and "p = [] \<or> hd p = CHR ''/''"
  shows "hd (split_from ''/'' [] (host @ p)) = host"
proof -
  have 1: "split_from ''/'' [] (host @ p) = split_from ''/'' (rev host) p"
    using assms(1) split_from_pass [of "''/''" host "[]" p] by simp
  show ?thesis
  proof (cases p)
    case Nil
    then show ?thesis using 1 by simp
  next
    case (Cons x p')
    then have "x = CHR ''/''" using assms(2) by simp
    then show ?thesis using 1 Cons by (simp add: startswith_def)
  qed
qed

lemma brand_name_host:
  assumes "CHR ''/'' \<notin> set scheme" and "CHR ''/'' \<notin> set host"
    and "rest = [] \<or> hd rest = CHR ''/''"
  shows "brand_name (scheme @ ''//'' @ host @ rest) = Inr (py_replace host ''www.amazon'' ''Amazon'')"
proof -
  let ?tail = "split_from ''//'' [] (host @ rest)"
  have 1: "py_split (scheme @ ''//'' @ host @ rest) ''//'' = scheme # ?tail"
    using assms(1) split_from_skip [of "''//''" scheme "[]" "host @ rest"]
    by (simp add: py_split_def)
  have ne: "?tail \<noteq> []" by (rule split_from_nonempty)
  have "?tail = split_from ''//'' (rev host) rest"
    using assms(2) split_from_pass [of "''//''" host "[]" rest] by simp
  moreover obtain p q where pq: "rest = p @ q"
      "hd (split_from ''//'' (rev host) rest) = rev (rev host) @ p"
    using hd_split_from [of rest "''//''" "rev host"] by blast
  ultimately have seg: "hd ?tail = host @ p" by simp
  have "p = [] \<or> hd p = CHR ''/''"
    using assms(3) pq(1) by (cases p) auto
  then have h: "hd (split_from ''/'' [] (host @ p)) = host"
    using assms(2) by (rule host_segment [rotated])
  have ne2: "split_from ''/'' [] (host @ p) \<noteq> []" by (rule split_from_nonempty)
  have i1: "py_index (py_split (scheme @ ''//'' @ host @ rest) ''//'') 1 = Inr (host @ p)"
    unfolding 1 using py_index_1 [OF ne, of scheme] seg by simp
  have i0: "py_index (py_split (host @ p) ''/'') 0 = Inr host"
    unfolding py_split_def using py_index_0 [OF ne2] h by simp
  show ?thesis
    unfolding brand_name_def i1 by (simp add: i0)
qed

lemma py_replace_skip:
  "old \<noteq> [] \<Longrightarrow> hd old \<notin> set a \<Longrightarrow> py_replace (a @ r) old new = a @ py_replace r old new"
proof (induction a)
  case Nil
  show ?case by simp
next
  case (Cons x a)
  have "\<not> startswith (x # a @ r) old"
    using Cons.prems startswith_Cons_hd by fastforce
  then show ?case using Cons by simp
qed

lemma py_replace_prefix:
  "old \<noteq> [] \<Longrightarrow> py_replace (old @ r) old new = new @ py_replace r old new"
proof -
  assume "old \<noteq> []"
  then obtain c cs where o: "old = c # cs" by (cases old) auto
  show ?thesis by (simp add: o startswith_def)
qed

lemma py_strip_trailing_blank:
  assumes "\<forall>c\<in>set n. \<not> py_isspace c"
  shows "py_strip (n @ '' '') = n"
proof (cases n)
  case Nil
  then show ?thesis by (simp add: py_strip_def py_isspace_def)
next
  case (Cons c cs)
  have a: "dropWhile py_isspace (n @ '' '') = n @ '' ''"
    using assms Cons by simp
  have "last n \<in> set n" using Cons by simp
  then have "rev n \<noteq> [] \<and> \<not> py_isspace (hd (rev n))"
    using assms Cons by (simp only: hd_rev) simp
  then have b: "dropWhile py_isspace (rev n) = rev n"
    by (simp add: dropWhile_eq_self_iff)
  have sp: "py_isspace CHR '' ''" by (simp add: py_isspace_def)
  show ?thesis by (simp add: py_strip_def a b sp)
qed

lemma py_strip_surrounded:
  assumes "\<forall>c\<in>set l. py_isspace c" and "\<forall>c\<in>set r. py_isspace c"
    and "n = [] \<or> \<not> py_isspace (hd n) \<and> \<not> py_isspace (last n)"
  shows "py_strip (l @ n @ r) = n"
proof (cases "n = []")
  case True
  have "\<forall>c\<in>set (l @ r). py_isspace c" using assms(1,2) by auto
  then have d: "dropWhile py_isspace (l @ r) = []"
    by (rule iffD2 [OF dropWhile_eq_Nil_conv])
  have "py_strip (l @ r) = []" unfolding py_strip_def d by simp
  then show ?thesis using True by simp
next
  case False
  then have hl: "\<not> py_isspace (hd n)" "\<not> py_isspace (last n)" using assms(3) by auto
  have "dropWhile py_isspace (l @ n @ r) = dropWhile py_isspace (n @ r)"
    by (rule dropWhile_append2) (use assms(1) in auto)
  also have "\<dots> = n @ r"
    using False hl(1) by (cases n) auto
  finally have a: "dropWhile py_isspace (l @ n @ r) = n @ r" .
  have "dropWhile py_isspace (rev r @ rev n) = dropWhile py_isspace (rev n)"
    by (rule dropWhile_append2) (use assms(2) in auto)
  also have "\<dots> = rev n"
    using False hl(2) by (simp add: dropWhile_eq_self_iff hd_rev)
  finally have b: "dropWhile py_isspace (rev r @ rev n) = rev n" .
  show ?thesis by (simp add: py_strip_def a b)
qed

lemma last_dropWhile_eq: "dropWhile P xs \<noteq> [] \<Longrightarrow> last (dropWhile P xs) = last xs"
proof -
  assume ne: "dropWhile P xs \<noteq> []"
  have "last (takeWhile P xs @ dropWhile P xs) = last (dropWhile P xs)"
    using ne by (rule last_appendR)
  then show ?thesis by simp
qed

lemma py_strip_trimmed:
  "py_strip s = [] \<or> \<not> py_isspace (hd (py_strip s)) \<and> \<not> py_isspace (last (py_strip s))"
proof (cases "py_strip s = []")
  case True
  then show ?thesis by simp
next
  case False
  let ?a = "dropWhile py_isspace s"
  let ?b = "dropWhile py_isspace (rev ?a)"
  have s: "py_strip s = rev ?b" by (simp add: py_strip_def)
  have bne: "?b \<noteq> []" using False s by simp
  have ane: "?a \<noteq> []"
  proof
    assume a: "?a = []"
    have "?b = []" unfolding a by simp
    with bne show False by simp
  qed
  have 1: "\<not> py_isspace (hd ?b)" using bne by (rule hd_dropWhile)
  have 2: "\<not> py_isspace (hd ?a)" using ane by (rule hd_dropWhile)
  have "last ?b = last (rev ?a)" using bne by (rule last_dropWhile_eq)
  also have "\<dots> = hd ?a" using ane by (simp add: last_rev)
  finally have 3: "last ?b = hd ?a" .
  have "hd (py_strip s) = last ?b" using bne s by (simp add: hd_rev)
  moreover have "last (py_strip s) = hd ?b" using bne s by (simp add: last_rev)
  ultimately show ?thesis using 1 2 3 by simp
qed

lemma rating_phrase_removed:
  assumes "\<forall>c\<in>set (l @ m @ r). py_isspace c" and "CHR ''o'' \<notin> set n"
  shows "py_replace (l @ n @ m @ ''out of 5 stars'' @ r) ''out of 5 stars'' [] = l @ n @ m @ r"
proof -
  have o: "\<not> py_isspace CHR ''o''" by (simp add: py_isspace_def)
  have 1: "hd ''out of 5 stars'' \<notin> set (l @ n @ m)"
    using assms o by auto
  have 2: "hd ''out of 5 stars'' \<notin> set r"
    using assms(1) o by auto
  have "py_replace ((l @ n @ m) @ ''out of 5 stars'' @ r) ''out of 5 stars'' [] =
        (l @ n @ m) @ py_replace (''out of 5 stars'' @ r) ''out of 5 stars'' []"
    using 1 by (intro py_replace_skip) simp_all
  also have "py_replace (''out of 5 stars'' @ r) ''out of 5 stars'' [] =
        [] @ py_replace r ''out of 5 stars'' []"
    by (rule py_replace_prefix) simp
  also have "py_replace r ''out of 5 stars'' [] = r"
    using py_replace_skip [of "''out of 5 stars''" r "[]" "[]"] 2 by simp
  finally show ?thesis by simp
qed

lemma fetched_url_has_slashes:
  assumes "requests_validates e" and "requests_get e u = Inr body"
  shows "py_in ''//'' u"
proof (rule ccontr)
  assume "\<not> py_in ''//'' u"
  then have "isl (requests_get e u)"
    using assms(1) by (simp add: requests_validates_def)
  then show False using assms(2) by simp
qed

section \<open>C1: a document without any of the five anchors\<close>

text \<open>
  Claim C1. For every fetched document in which none of the five anchors
  \<open>#productTitle\<close>, \<open>#acrPopover\<close>, \<open>span.a-price span.a-offscreen\<close>, \<open>#landingImage\<close>,
  \<open>#feature-bullets\<close> is present, scrape_amazon_product does not raise: it returns the
  record whose productName is "No title available", whose productDescription is
  "No description available", and whose productImage, productPrice and productRating are
  None. The fetch is that of the requests library, which yields a document only for a URL
  that passes its validation.
\<close>

theorem no_anchor_placeholders:
  assumes "requests_validates e"
    and "requests_get e u = Inr body" and "BeautifulSoup e body = Inr soup"
    and "soup ''#productTitle'' = None" and "soup ''#acrPopover'' = None"
    and "soup ''span.a-price span.a-offscreen'' = None" and "soup ''#landingImage'' = None"
    and "soup ''#feature-bullets'' = None"
  shows "\<exists>b. brand_name u = Inr b \<and>
           fst (scrape_amazon_product e u w) =
             Inr \<lparr>brandName = b, productName = ''No title available'',
                  productDescription = ''No description available'',
                  productImage = None, productPrice = None, productRating = None\<rparr>"
proof -
  have "py_in ''//'' u" using assms(1,2) by (rule fetched_url_has_slashes)
  then obtain b where b: "brand_name u = Inr b"
    using brand_name_slashes by blast
  have "scrape_title soup = ''No title available''"
    using assms(4) by (simp add: scrape_title_def)
  moreover have "scrape_rating soup = None"
    using assms(5) by (simp add: scrape_rating_def)
  moreover have "scrape_price soup = None"
    using assms(6) by (simp add: scrape_price_def)
  moreover have "scrape_image soup = None"
    using assms(7) by (simp add: scrape_image_def)
  moreover have "scrape_description soup = None"
    using assms(8) by (simp add: scrape_description_def)
  ultimately show ?thesis
    using b by (simp add: scrape_ok [OF assms(2,3) b] py_or_def)
qed

theorem no_anchor_placeholders_witness:
  "requests_validates (web blank_soup 0)
   \<and> requests_get (web blank_soup 0) ''https://www.amazon.com/dp/B0'' = Inr ''<html></html>''
   \<and> BeautifulSoup (web blank_soup 0) ''<html></html>'' = Inr blank_soup
   \<and> blank_soup ''#productTitle'' = None \<and> blank_soup ''#acrPopover'' = None
   \<and> blank_soup ''span.a-price span.a-offscreen'' = None
   \<and> blank_soup ''#landingImage'' = None \<and> blank_soup ''#feature-bullets'' = None
   \<and> fst (scrape_amazon_product (web blank_soup 0) ''https://www.amazon.com/dp/B0'' fresh) =
         Inr \<lparr>brandName = ''Amazon.com'', productName = ''No title available'',
              productDescription = ''No description available'',
              productImage = None, productPrice = None, productRating = None\<rparr>"
proof -
  have v: "requests_validates (web blank_soup 0)"
    by (simp add: requests_validates_def web_def)
  have g: "requests_get (web blank_soup 0) ''https://www.amazon.com/dp/B0'' = Inr ''<html></html>''"
    by (simp add: web_def startswith_def)
  have p: "BeautifulSoup (web blank_soup 0) ''<html></html>'' = Inr blank_soup"
    by (simp add: web_def)
  have a1: "blank_soup ''#productTitle'' = None" by (simp add: blank_soup_def)
  have a2: "blank_soup ''#acrPopover'' = None" by (simp add: blank_soup_def)
  have a3: "blank_soup ''span.a-price span.a-offscreen'' = None" by (simp add: blank_soup_def)
  have a4: "blank_soup ''#landingImage'' = None" by (simp add: blank_soup_def)
  have a5: "blank_soup ''#feature-bullets'' = None" by (simp add: blank_soup_def)
  have bn: "brand_name ''https://www.amazon.com/dp/B0'' = Inr ''Amazon.com''"
    by (simp add: brand_name_def py_split_def py_index_def startswith_def)
  obtain b where b: "brand_name ''https://www.amazon.com/dp/B0'' = Inr b"
    and f: "fst (scrape_amazon_product (web blank_soup 0) ''https://www.amazon.com/dp/B0'' fresh) =
             Inr \<lparr>brandName = b, productName = ''No title available'',
                  productDescription = ''No description available'',
                  productImage = None, productPrice = None, productRating = None\<rparr>"
    using no_anchor_placeholders [OF v g p a1 a2 a3 a4 a5, of fresh] by blast
  have "b = ''Amazon.com''" using b bn by simp
  then have f': "fst (scrape_amazon_product (web blank_soup 0) ''https://www.amazon.com/dp/B0'' fresh) =
         Inr \<lparr>brandName = ''Amazon.com'', productName = ''No title available'',
              productDescription = ''No description available'',
              productImage = None, productPrice = None, productRating = None\<rparr>"
    using f by simp
  show ?thesis by (intro conjI v g p a1 a2 a3 a4 a5 f')
qed

section \<open>C2: the rating text\<close>

text \<open>
  Claim C2. When the rating anchor has a non-empty title text \<open>t\<close>, the extracted
  productRating is \<open>t\<close> with the phrase "out of 5 stars" removed and the surrounding
  whitespace trimmed, so it neither starts nor ends with whitespace. For the title
  "4.5 out of 5 stars" it is "4.5". For every title made of a numeric portion and the
  phrase, with any whitespace before, between and after them, it is the numeric portion
  alone; the numeric portion is any text without the letter o that neither starts nor
  ends with whitespace, for instance digits and dots.
\<close>

theorem rating_suffix_stripped:
  assumes "requests_get e u = Inr body" and "BeautifulSoup e body = Inr soup"
    and "py_in ''//'' u"
    and "soup ''#acrPopover'' = Some el" and "map_of (attrs el) ''title'' = Some t"
    and "t \<noteq> []"
  shows "\<exists>pd. fst (scrape_amazon_product e u w) = Inr pd
      \<and> productRating pd = Some (py_strip (py_replace t ''out of 5 stars'' []))
      \<and> (t = ''4.5 out of 5 stars'' \<longrightarrow> productRating pd = Some ''4.5'')
      \<and> (\<forall>n. t = n @ '' out of 5 stars'' \<and> set n \<subseteq> set ''0123456789.''
             \<longrightarrow> productRating pd = Some n)
      \<and> (\<forall>l n m r. t = l @ n @ m @ ''out of 5 stars'' @ r
               \<and> (\<forall>c\<in>set (l @ m @ r). py_isspace c)
               \<and> CHR ''o'' \<notin> set n
               \<and> (n = [] \<or> \<not> py_isspace (hd n) \<and> \<not> py_isspace (last n))
             \<longrightarrow> productRating pd = Some n)
      \<and> (\<forall>r. productRating pd = Some r \<longrightarrow>
             r = [] \<or> \<not> py_isspace (hd r) \<and> \<not> py_isspace (last r))"
proof -
  obtain b where b: "brand_name u = Inr b"
    using brand_name_slashes [OF assms(3)] by blast
  let ?r = "py_strip (py_replace t ''out of 5 stars'' [])"
  have r: "scrape_rating soup = Some ?r"
    using assms(4,5,6) by (simp add: scrape_rating_def dict_get_def)
  have ex: "t = ''4.5 out of 5 stars'' \<Longrightarrow> ?r = ''4.5''"
    by (simp add: py_strip_def startswith_def py_isspace_def)
  have gen: "?r = n"
    if t: "t = l @ n @ m @ ''out of 5 stars'' @ r"
      and ws: "\<forall>c\<in>set (l @ m @ r). py_isspace c"
      and o: "CHR ''o'' \<notin> set n"
      and n: "n = [] \<or> \<not> py_isspace (hd n) \<and> \<not> py_isspace (last n)"
    for l n m r
  proof -
    have "py_replace t ''out of 5 stars'' [] = l @ n @ (m @ r)"
      unfolding t using ws o by (rule rating_phrase_removed)
    moreover have "py_strip (l @ n @ (m @ r)) = n"
      using ws n by (intro py_strip_surrounded) auto
    ultimately show ?thesis by simp
  qed
  have num: "?r = n" if t: "t = n @ '' out of 5 stars''" and n: "set n \<subseteq> set ''0123456789.''" for n
  proof -
    have sp: "\<forall>c\<in>set n. \<not> py_isspace c"
      using n by (auto simp: py_isspace_def)
    have 1: "t = [] @ n @ '' '' @ ''out of 5 stars'' @ []" using t by simp
    have 2: "\<forall>c\<in>set ([] @ '' '' @ []). py_isspace c" by (simp add: py_isspace_def)
    have 3: "CHR ''o'' \<notin> set n" using n by auto
    have 4: "n = [] \<or> \<not> py_isspace (hd n) \<and> \<not> py_isspace (last n)"
      using sp by (cases n) auto
    show ?thesis using 1 2 3 4 by (rule gen)
  qed
  have trim: "?r = [] \<or> \<not> py_isspace (hd ?r) \<and> \<not> py_isspace (last ?r)"
    by (rule py_strip_trimmed)
  let ?pd = "\<lparr>brandName = b, productName = scrape_title soup,
               productDescription = py_or (scrape_description soup) ''No description available'',
               productImage = scrape_image soup, productPrice = scrape_price soup,
               productRating = Some ?r\<rparr>"
  have f: "fst (scrape_amazon_product e u w) = Inr ?pd"
    using r by (simp add: scrape_ok [OF assms(1,2) b])
  have pr: "productRating ?pd = Some ?r" by simp
  show ?thesis
  proof (intro exI [of _ ?pd] conjI allI impI)
    show "fst (scrape_amazon_product e u w) = Inr ?pd" by (rule f)
    show "productRating ?pd = Some ?r" by (rule pr)
    show "productRating ?pd = Some ''4.5''" if "t = ''4.5 out of 5 stars''"
      unfolding pr using ex [OF that] by simp
    show "productRating ?pd = Some n"
      if "t = n @ '' out of 5 stars'' \<and> set n \<subseteq> set ''0123456789.''" for n
      unfolding pr using num [of n] that by simp
    show "productRating ?pd = Some n"
      if "t = l @ n @ m @ ''out of 5 stars'' @ r
               \<and> (\<forall>c\<in>set (l @ m @ r). py_isspace c)
               \<and> CHR ''o'' \<notin> set n
               \<and> (n = [] \<or> \<not> py_isspace (hd n) \<and> \<not> py_isspace (last n))" for l n m r
      unfolding pr using gen [of l n m r] that by simp
    show "r = [] \<or> \<not> py_isspace (hd r) \<and> \<not> py_isspace (last r)"
      if "productRating ?pd = Some r" for r
      using that trim unfolding pr by simp
  qed
qed

theorem rating_suffix_stripped_witness:
  "requests_get (serving padded_soup 0) ''https://www.amazon.com/dp/X'' = Inr ''<html></html>''
   \<and> BeautifulSoup (serving padded_soup 0) ''<html></html>'' = Inr padded_soup
   \<and> py_in ''//'' ''https://www.amazon.com/dp/X''
   \<and> padded_soup ''#acrPopover'' =
         Some \<lparr>elem_text = [],
               attrs = [(''title'', '' 4.5  out of 5 stars'' @ [CHR 0xA0, CHR 0x0A])]\<rparr>
   \<and> '' 4.5  out of 5 stars'' @ [CHR 0xA0, CHR 0x0A] =
         '' '' @ ''4.5'' @ ''  '' @ ''out of 5 stars'' @ [CHR 0xA0, CHR 0x0A]
   \<and> py_isspace CHR '' '' \<and> py_isspace CHR 0xA0 \<and> py_isspace CHR 0x0A
   \<and> CHR ''o'' \<notin> set ''4.5''
   \<and> productRating (projr (fst (scrape_amazon_product (serving padded_soup 0)
         ''https://www.amazon.com/dp/X'' fresh))) = Some ''4.5''"
proof -
  let ?t = "'' 4.5  out of 5 stars'' @ [CHR 0xA0, CHR 0x0A]"
  let ?el = "\<lparr>elem_text = [], attrs = [(''title'', ?t)]\<rparr>"
  have g: "requests_get (serving padded_soup 0) ''https://www.amazon.com/dp/X'' = Inr ''<html></html>''"
    by (simp add: serving_def)
  have p: "BeautifulSoup (serving padded_soup 0) ''<html></html>'' = Inr padded_soup"
    by (simp add: serving_def)
  have u: "py_in ''//'' ''https://www.amazon.com/dp/X''"
    by (simp add: startswith_def)
  have el: "padded_soup ''#acrPopover'' = Some ?el"
    by (simp add: padded_soup_def)
  have ti: "map_of (attrs ?el) ''title'' = Some ?t" by simp
  have ne: "?t \<noteq> []" by simp
  have sh: "?t = '' '' @ ''4.5'' @ ''  '' @ ''out of 5 stars'' @ [CHR 0xA0, CHR 0x0A]" by simp
  have s1: "py_isspace CHR '' ''" by (simp add: py_isspace_def)
  have s2: "py_isspace CHR 0xA0" by (simp add: py_isspace_def)
  have s3: "py_isspace CHR 0x0A" by (simp add: py_isspace_def)
  have ws: "\<forall>c\<in>set ('' '' @ ''  '' @ [CHR 0xA0, CHR 0x0A]). py_isspace c"
    using s1 s2 s3 by simp
  have o: "CHR ''o'' \<notin> set ''4.5''" by simp
  have n: "''4.5'' = [] \<or> \<not> py_isspace (hd ''4.5'') \<and> \<not> py_isspace (last ''4.5'')"
    by (simp add: py_isspace_def)
  obtain pd where f: "fst (scrape_amazon_product (serving padded_soup 0)
         ''https://www.amazon.com/dp/X'' fresh) = Inr pd"
    and gen: "\<forall>l n m r. ?t = l @ n @ m @ ''out of 5 stars'' @ r
               \<and> (\<forall>c\<in>set (l @ m @ r). py_isspace c)
               \<and> CHR ''o'' \<notin> set n
               \<and> (n = [] \<or> \<not> py_isspace (hd n) \<and> \<not> py_isspace (last n))
             \<longrightarrow> productRating pd = Some n"
    using rating_suffix_stripped [OF g p u el ti ne, of fresh] by blast
  have "productRating pd = Some ''4.5''"
    using gen [rule_format, of "'' ''" "''4.5''" "''  ''" "[CHR 0xA0, CHR 0x0A]"] sh ws o n
    by blast
  then have r: "productRating (projr (fst (scrape_amazon_product (serving padded_soup 0)
         ''https://www.amazon.com/dp/X'' fresh))) = Some ''4.5''"
    using f by simp
  show ?thesis by (intro conjI g p u el sh s1 s2 s3 o r)
qed

section \<open>C6: the brand name\<close>

text \<open>
  Claim C6. The brand name is computed from the URL alone. For the URL
  \<open>https://www.amazon.com/dp/X\<close> it is "Amazon.com". For a URL made of a scheme, \<open>//\<close>,
  a host and a rest that is empty or starts with a slash, it is the host with
  "www.amazon" replaced by "Amazon"; a host that starts with "www.amazon" gives a brand
  name that starts with "Amazon". The brandName of every record that
  scrape_amazon_product returns is the brand name of its URL.
\<close>

theorem brand_from_host:
  "brand_name ''https://www.amazon.com/dp/X'' = Inr ''Amazon.com''
   \<and> (CHR ''/'' \<notin> set scheme \<and> CHR ''/'' \<notin> set host \<and> (rest = [] \<or> hd rest = CHR ''/'')
        \<longrightarrow> brand_name (scheme @ ''//'' @ host @ rest) =
              Inr (py_replace host ''www.amazon'' ''Amazon''))
   \<and> py_replace (''www.amazon'' @ tld) ''www.amazon'' ''Amazon'' =
        ''Amazon'' @ py_replace tld ''www.amazon'' ''Amazon''
   \<and> (fst (scrape_amazon_product e u w) = Inr pd \<longrightarrow> brand_name u = Inr (brandName pd))"
proof -
  have 1: "brand_name ''https://www.amazon.com/dp/X'' = Inr ''Amazon.com''"
    by (simp add: brand_name_def py_split_def py_index_def startswith_def)
  have 2: "CHR ''/'' \<notin> set scheme \<and> CHR ''/'' \<notin> set host \<and> (rest = [] \<or> hd rest = CHR ''/'')
        \<longrightarrow> brand_name (scheme @ ''//'' @ host @ rest) =
              Inr (py_replace host ''www.amazon'' ''Amazon'')"
    using brand_name_host by blast
  have 3: "py_replace (''www.amazon'' @ tld) ''www.amazon'' ''Amazon'' =
        ''Amazon'' @ py_replace tld ''www.amazon'' ''Amazon''"
    by (rule py_replace_prefix) simp
  have 4: "fst (scrape_amazon_product e u w) = Inr pd \<longrightarrow> brand_name u = Inr (brandName pd)"
  proof (cases rule: scrape_try_cases [of e u w])
    case (ok body soup b)
    show ?thesis using ok(3) by (auto simp: scrape_ok [OF ok])
  qed (simp_all add: scrape_failed)
  show ?thesis using 1 2 3 4 by blast
qed

theorem brand_from_host_witness:
  "CHR ''/'' \<notin> set ''https:'' \<and> CHR ''/'' \<notin> set ''www.amazon.co.uk''
   \<and> hd ''/dp/X?k=a//b'' = CHR ''/''
   \<and> brand_name (''https:'' @ ''//'' @ ''www.amazon.co.uk'' @ ''/dp/X?k=a//b'') = Inr ''Amazon.co.uk''
   \<and> py_replace (''www.amazon'' @ ''.co.uk'') ''www.amazon'' ''Amazon'' = ''Amazon.co.uk''
   \<and> fst (scrape_amazon_product (serving widget_soup 0) ''https://www.amazon.com/dp/X'' fresh) =
         Inr widget
   \<and> brand_name ''https://www.amazon.com/dp/X'' = Inr (brandName widget)"
  using brand_from_host [of "''https:''" "''www.amazon.co.uk''" "''/dp/X?k=a//b''" "''.co.uk''"
      "serving widget_soup 0" "''https://www.amazon.com/dp/X''" fresh widget]
  by (simp add: eval_defs widget_def)

section \<open>Facts about the composer\<close>

lemmas ad_defs =
  generate_simple_ad_def get_target_description_def dict_item_def
  descriptions_def random_choice_def ad_templates_def rating_clause_def

lemma py_in_middle: "py_in s (a @ s @ b)"
  unfolding py_in_iff by blast

lemma py_in_append: "py_in s t \<Longrightarrow> py_in s (t @ d)"
proof -
  assume "py_in s t"
  then obtain xs ys where "t = xs @ s @ ys" unfolding py_in_iff by blast
  then have "t @ d = xs @ s @ (ys @ d)" by simp
  then show ?thesis unfolding py_in_iff by blast
qed

lemma target_description_total: "\<exists>d. get_target_description g a = Inr d"
  by (simp add: get_target_description_def dict_item_def descriptions_def)

lemma ad_templates_length: "length (ad_templates pd) = 5"
  by (simp add: ad_templates_def)

lemma random_choice_templates:
  "random_choice n (ad_templates pd) = Inr (ad_templates pd ! (n mod 5))"
  using ad_templates_length [of pd]
  by (auto simp: random_choice_def py_index_def)

lemma generate_simple_ad_eq:
  assumes "get_target_description g a = Inr d"
  shows "generate_simple_ad pd g a n =
           Inr (if d \<noteq> [] then ad_templates pd ! (n mod 5) @ [CHR 0x0A] @ d
                else ad_templates pd ! (n mod 5))"
  by (simp add: generate_simple_ad_def assms random_choice_templates)



lemma templates_hold_name:
  assumes "t \<in> set (ad_templates pd)"
  shows "py_in (productName pd) t"
proof -
  have 1: "py_in (productName pd) (''Discover '' @ productName pd @ ''! '' @ rating_clause pd
             @ '' Available now at '' @ fmt (productPrice pd) @ ''.'')"
    by (rule py_in_middle)
  have 2: "py_in (productName pd) (''Introducing the amazing '' @ productName pd
             @ '' - perfect for you! '' @ rating_clause pd)"
    by (rule py_in_middle)
  have "py_in (productName pd) ((''Don'' @ [CHR 0x27] @ ''t miss out on '') @ productName pd
             @ ''! Get yours at '' @ fmt (productPrice pd) @ ''.'')"
    by (rule py_in_middle)
  then have 3: "py_in (productName pd) (''Don'' @ [CHR 0x27] @ ''t miss out on '' @ productName pd
             @ ''! Get yours at '' @ fmt (productPrice pd) @ ''.'')"
    by (simp only: append_assoc)
  have 4: "py_in (productName pd) (''Experience the excellence of '' @ productName pd
             @ ''! '' @ rating_clause pd)"
    by (rule py_in_middle)
  have 5: "py_in (productName pd) (''Transform your life with '' @ productName pd
             @ ''! Now only '' @ fmt (productPrice pd) @ ''!'')"
    by (rule py_in_middle)
  from assms have "t \<in> set (ad_templates pd)" .
  then show ?thesis
    unfolding ad_templates_def using 1 2 3 4 5
    by (simp only: list.set insert_iff empty_iff) (elim disjE FalseE; simp only:)
qed

lemma nth_templates_in: "ad_templates pd ! (n mod 5) \<in> set (ad_templates pd)"
  using ad_templates_length [of pd] by (intro nth_mem) simp

lemma table_pairs_eq:
  "table_pairs =
     [(''female'', ''9-18''), (''female'', ''18-25''), (''female'', ''25-40''),
      (''female'', ''40-60''), (''female'', ''60+''),
      (''male'', ''9-18''), (''male'', ''18-25''), (''male'', ''25-40''),
      (''male'', ''40-60''), (''male'', ''60+''),
      (''others'', ''*'')]"
  by (simp add: table_pairs_def descriptions_def)

lemma outside_table_empty:
  assumes "g \<noteq> ''others''" and "(g, a) \<notin> set table_pairs"
  shows "get_target_description g a = Inr []"
proof -
  consider "g = ''female''" | "g = ''male''" | "g \<noteq> ''female'' \<and> g \<noteq> ''male''" by blast
  then show ?thesis
  proof cases
    case 1
    then have "a \<notin> {''9-18'', ''18-25'', ''25-40'', ''40-60'', ''60+''}"
      using assms(2) by (simp add: table_pairs_eq)
    then show ?thesis
      using 1 by (simp add: get_target_description_def dict_get_def descriptions_def)
  next
    case 2
    then have "a \<notin> {''9-18'', ''18-25'', ''25-40'', ''40-60'', ''60+''}"
      using assms(2) by (simp add: table_pairs_eq)
    then show ?thesis
      using 2 by (simp add: get_target_description_def dict_get_def descriptions_def)
  next
    case 3
    then show ?thesis
      using assms(1) by (simp add: get_target_description_def dict_get_def descriptions_def)
  qed
qed


lemma inside_table_nonempty:
  assumes "(g, a) \<in> set table_pairs"
  shows "get_target_description g a \<noteq> Inr []"
  using assms unfolding table_pairs_eq
  by (auto simp: get_target_description_def dict_get_def dict_item_def descriptions_def)

section \<open>C3: the composed ad\<close>

text \<open>
  As stated, C3 fails on a record whose productRating is present and empty. Such a record
  is what scrape_amazon_product returns when the title of the rating anchor is the bare
  phrase "out of 5 stars". The specification's clause for it is " Rated  stars!"; the
  composer tests the truth value of productRating, and its clause is empty.
\<close>

theorem rating_clause_counterexample:
  "fst (scrape_amazon_product (serving unrated_soup 1) ''https://www.amazon.com/dp/X'' fresh) =
     Inr unrated_widget
   \<and> productRating unrated_widget = Some []
   \<and> spec_rating_clause unrated_widget = '' Rated  stars!''
   \<and> rating_clause unrated_widget = []
   \<and> generate_simple_ad unrated_widget ''male'' ''teen'' 1 =
        Inr ''Introducing the amazing Widget - perfect for you! ''
   \<and> generate_simple_ad unrated_widget ''male'' ''teen'' 1 \<noteq>
        Inr (''Introducing the amazing Widget - perfect for you! ''
             @ spec_rating_clause unrated_widget)"
  by (simp add: eval_defs ad_defs unrated_widget_def spec_rating_clause_def)

text \<open>
  Claim C3, amended. For every product record, every gender, every age group and every
  number drawn, generate_simple_ad does not fail. It returns one of the five templates
  (the one that the number drawn selects), filled with productName, the rating clause and
  productPrice, followed by the targeting line if there is one. Each of the five contains
  productName verbatim. The rating clause is " Rated {rating} stars!" when productRating is
  present and not empty, and the empty string when it is None or the empty string.
\<close>

theorem composed_ad_is_template:
  "\<exists>t d. get_target_description g a = Inr d
     \<and> generate_simple_ad pd g a n = Inr (t @ (if d \<noteq> [] then [CHR 0x0A] @ d else []))
     \<and> t = ad_templates pd ! (n mod 5)
     \<and> t \<in> {''Discover '' @ productName pd @ ''! '' @ rating_clause pd @ '' Available now at ''
                @ fmt (productPrice pd) @ ''.'',
             ''Introducing the amazing '' @ productName pd @ '' - perfect for you! ''
                @ rating_clause pd,
             ''Don'' @ [CHR 0x27] @ ''t miss out on '' @ productName pd @ ''! Get yours at ''
                @ fmt (productPrice pd) @ ''.'',
             ''Experience the excellence of '' @ productName pd @ ''! '' @ rating_clause pd,
             ''Transform your life with '' @ productName pd @ ''! Now only ''
                @ fmt (productPrice pd) @ ''!''}
     \<and> py_in (productName pd) t
     \<and> py_in (productName pd) (t @ (if d \<noteq> [] then [CHR 0x0A] @ d else []))
     \<and> rating_clause pd =
          (case productRating pd of
             None \<Rightarrow> []
           | Some r \<Rightarrow> if r = [] then [] else '' Rated '' @ r @ '' stars!'')"
proof -
  obtain d where d: "get_target_description g a = Inr d"
    using target_description_total by blast
  let ?t = "ad_templates pd ! (n mod 5)"
  have mem: "?t \<in> set (ad_templates pd)" by (rule nth_templates_in)
  have 1: "generate_simple_ad pd g a n = Inr (?t @ (if d \<noteq> [] then [CHR 0x0A] @ d else []))"
    by (simp add: generate_simple_ad_eq [OF d])
  have 2: "?t \<in> {''Discover '' @ productName pd @ ''! '' @ rating_clause pd @ '' Available now at ''
                @ fmt (productPrice pd) @ ''.'',
             ''Introducing the amazing '' @ productName pd @ '' - perfect for you! ''
                @ rating_clause pd,
             ''Don'' @ [CHR 0x27] @ ''t miss out on '' @ productName pd @ ''! Get yours at ''
                @ fmt (productPrice pd) @ ''.'',
             ''Experience the excellence of '' @ productName pd @ ''! '' @ rating_clause pd,
             ''Transform your life with '' @ productName pd @ ''! Now only ''
                @ fmt (productPrice pd) @ ''!''}"
    using mem unfolding ad_templates_def by (simp only: list.set)
  have 3: "py_in (productName pd) ?t" using mem by (rule templates_hold_name)
  then have 4: "py_in (productName pd) (?t @ (if d \<noteq> [] then [CHR 0x0A] @ d else []))"
    by (rule py_in_append)
  have 5: "rating_clause pd =
          (case productRating pd of
             None \<Rightarrow> []
           | Some r \<Rightarrow> if r = [] then [] else '' Rated '' @ r @ '' stars!'')"
    by (simp add: rating_clause_def truthy_def fmt_def split: option.splits)
  show ?thesis using d 1 2 3 4 5 by blast
qed

theorem composed_ad_is_template_witness:
  "generate_simple_ad widget ''female'' ''25-40'' 7 =
     Inr (''Don'' @ [CHR 0x27] @ ''t miss out on Widget! Get yours at $19.99.'' @ [CHR 0x0A]
          @ ''For women in this age group, the ad should focus on a balance of comfort, elegance, and professional appeal.'')
   \<and> generate_simple_ad widget ''male'' ''teen'' 3 =
     Inr ''Experience the excellence of Widget!  Rated 4.5 stars!''
   \<and> py_in (productName widget) ''Experience the excellence of Widget!  Rated 4.5 stars!''
   \<and> rating_clause widget = '' Rated 4.5 stars!''
   \<and> rating_clause unrated_widget = []"
  using composed_ad_is_template [of "''female''" "''25-40''" widget 7]
  by (simp add: eval_defs ad_defs widget_def unrated_widget_def)

section \<open>C4: the targeting sentence\<close>

text \<open>
  Claim C4. get_target_description never raises. For the gender "others" it returns the
  same sentence for every age group. For every other gender and age group that are not a
  pair of the table it returns the empty string, and for every pair of the table it
  returns a sentence that is not empty. generate_simple_ad appends the sentence after a
  newline to the chosen template when the sentence is not empty, and returns the template
  alone when it is empty.
\<close>

theorem target_description_lookup:
  "get_target_description ''others'' a =
     Inr ''The ad should emphasize inclusivity, comfort, and a sense of belonging, appealing to individuals of diverse identities who value style and self-expression across all age groups.''
   \<and> (g \<noteq> ''others'' \<and> (g, a) \<notin> set table_pairs \<longrightarrow> get_target_description g a = Inr [])
   \<and> ((g, a) \<in> set table_pairs \<longrightarrow> get_target_description g a \<noteq> Inr [])
   \<and> (\<exists>d. get_target_description g a = Inr d
          \<and> generate_simple_ad pd g a n =
              Inr (if d \<noteq> [] then ad_templates pd ! (n mod 5) @ [CHR 0x0A] @ d
                   else ad_templates pd ! (n mod 5)))"
proof -
  have 1: "get_target_description ''others'' a =
     Inr ''The ad should emphasize inclusivity, comfort, and a sense of belonging, appealing to individuals of diverse identities who value style and self-expression across all age groups.''"
    by (simp add: get_target_description_def dict_item_def descriptions_def)
  have 2: "g \<noteq> ''others'' \<and> (g, a) \<notin> set table_pairs \<longrightarrow> get_target_description g a = Inr []"
    using outside_table_empty by blast
  have 3: "(g, a) \<in> set table_pairs \<longrightarrow> get_target_description g a \<noteq> Inr []"
    using inside_table_nonempty by blast
  obtain d where d: "get_target_description g a = Inr d"
    using target_description_total by blast
  have 4: "\<exists>d. get_target_description g a = Inr d
          \<and> generate_simple_ad pd g a n =
              Inr (if d \<noteq> [] then ad_templates pd ! (n mod 5) @ [CHR 0x0A] @ d
                   else ad_templates pd ! (n mod 5))"
    using d generate_simple_ad_eq [OF d] by blast
  show ?thesis using 1 2 3 4 by blast
qed

theorem target_description_lookup_witness:
  "''robot'' \<noteq> ''others'' \<and> (''robot'', ''18-25'') \<notin> set table_pairs
   \<and> get_target_description ''robot'' ''18-25'' = Inr []
   \<and> generate_simple_ad widget ''robot'' ''18-25'' 3 =
        Inr ''Experience the excellence of Widget!  Rated 4.5 stars!''
   \<and> (''male'', ''60+'') \<in> set table_pairs
   \<and> get_target_description ''male'' ''60+'' =
        Inr ''The ad should highlight comfort, ease of use, and thoughtful gifts for loved ones.''
   \<and> generate_simple_ad widget ''male'' ''60+'' 3 =
        Inr (''Experience the excellence of Widget!  Rated 4.5 stars!'' @ [CHR 0x0A]
             @ ''The ad should highlight comfort, ease of use, and thoughtful gifts for loved ones.'')
   \<and> get_target_description ''male'' ''61'' = Inr []
   \<and> get_target_description ''others'' ''61'' = get_target_description ''others'' ''9-18''"
  using target_description_lookup [of "''18-25''" "''robot''" widget 3]
  by (simp add: eval_defs ad_defs widget_def table_pairs_eq)

section \<open>C10: an absent price\<close>

text \<open>
  Claim C10. When productPrice is None, the three templates with a price (the first, the
  third and the fifth) contain the text "None" where the price belongs: "Available now at
  None.", "Get yours at None." and "Now only None!".
\<close>

theorem absent_price_prints_None:
  assumes "productPrice pd = None"
  shows "\<exists>d. get_target_description g a = Inr d
     \<and> generate_simple_ad pd g a (5 * k) =
         Inr (''Discover '' @ productName pd @ ''! '' @ rating_clause pd
              @ '' Available now at None.'' @ (if d \<noteq> [] then [CHR 0x0A] @ d else []))
     \<and> generate_simple_ad pd g a (5 * k + 2) =
         Inr (''Don'' @ [CHR 0x27] @ ''t miss out on '' @ productName pd
              @ ''! Get yours at None.'' @ (if d \<noteq> [] then [CHR 0x0A] @ d else []))
     \<and> generate_simple_ad pd g a (5 * k + 4) =
         Inr (''Transform your life with '' @ productName pd
              @ ''! Now only None!'' @ (if d \<noteq> [] then [CHR 0x0A] @ d else []))"
proof -
  obtain d where d: "get_target_description g a = Inr d"
    using target_description_total by blast
  have m: "(5 * k) mod 5 = 0" "(5 * k + 2) mod 5 = 2" "(5 * k + 4) mod 5 = 4"
    by presburger+
  have g0: "generate_simple_ad pd g a (5 * k) =
         Inr (''Discover '' @ productName pd @ ''! '' @ rating_clause pd
              @ '' Available now at None.'' @ (if d \<noteq> [] then [CHR 0x0A] @ d else []))"
    unfolding generate_simple_ad_eq [OF d] m(1)
    by (simp add: ad_templates_def fmt_def assms)
  have g2: "generate_simple_ad pd g a (5 * k + 2) =
         Inr (''Don'' @ [CHR 0x27] @ ''t miss out on '' @ productName pd
              @ ''! Get yours at None.'' @ (if d \<noteq> [] then [CHR 0x0A] @ d else []))"
    unfolding generate_simple_ad_eq [OF d] m(2)
    by (simp add: ad_templates_def fmt_def assms)
  have g4: "generate_simple_ad pd g a (5 * k + 4) =
         Inr (''Transform your life with '' @ productName pd
              @ ''! Now only None!'' @ (if d \<noteq> [] then [CHR 0x0A] @ d else []))"
    unfolding generate_simple_ad_eq [OF d] m(3)
    by (simp add: ad_templates_def fmt_def assms)
  show ?thesis using d g0 g2 g4 by blast
qed

theorem absent_price_prints_None_witness:
  "fst (scrape_amazon_product (serving unrated_soup 0) ''https://www.amazon.com/dp/X'' fresh) =
     Inr unrated_widget
   \<and> productPrice unrated_widget = None
   \<and> generate_simple_ad unrated_widget ''male'' ''teen'' (5 * 0) =
        Inr ''Discover Widget!  Available now at None.''
   \<and> py_in ''None'' ''Discover Widget!  Available now at None.''
   \<and> generate_simple_ad unrated_widget ''male'' ''teen'' (5 * 0 + 2) =
        Inr (''Don'' @ [CHR 0x27] @ ''t miss out on Widget! Get yours at None.'')
   \<and> generate_simple_ad unrated_widget ''male'' ''teen'' (5 * 0 + 4) =
        Inr ''Transform your life with Widget! Now only None!''"
  using absent_price_prints_None [of unrated_widget "''male''" "''teen''" 0]
  by (simp add: eval_defs ad_defs unrated_widget_def)

section \<open>Facts about create_ad\<close>

lemma generate_simple_ad_total: "\<exists>ad. generate_simple_ad pd g a n = Inr ad"
proof -
  obtain d where d: "get_target_description g a = Inr d"
    using target_description_total by blast
  show ?thesis using generate_simple_ad_eq [OF d] by blast
qed

lemma create_ad_scrape_failed:
  assumes "req_url r \<noteq> []"
    and "scrape_amazon_product e (req_url r) (print (''Received URL: '' @ req_url r) w) = (Inl err, w')"
  shows "create_ad e r w = on_error e err w'"
  using assms by (simp add: create_ad_def Let_def)

lemma create_ad_scrape_ok:
  assumes "req_url r \<noteq> []"
    and "scrape_amazon_product e (req_url r) (print (''Received URL: '' @ req_url r) w) = (Inr pd, w')"
  shows "\<exists>ad. generate_simple_ad pd (gender r) (ageGroup r) (draw e) = Inr ad
       \<and> create_ad e r w =
           (Inr \<lparr>product_data = pd, adCopy = ad\<rparr>,
            print (''Scraped Product Data: '' @ str_dict e pd) w')"
proof -
  obtain ad where ad: "generate_simple_ad pd (gender r) (ageGroup r) (draw e) = Inr ad"
    using generate_simple_ad_total by blast
  show ?thesis using assms ad by (simp add: create_ad_def Let_def)
qed

lemma create_ad_error_generic:
  assumes "req_url r \<noteq> []" and "fst (create_ad e r w) = Inl err"
  shows "err = HTTPException 500
           (''Error generating ad: '' @ str_HTTPException e 500 ''Failed to scrape the product data'')"
proof -
  let ?w1 = "print (''Received URL: '' @ req_url r) w"
  obtain res w' where s: "scrape_amazon_product e (req_url r) ?w1 = (res, w')"
    by (cases "scrape_amazon_product e (req_url r) ?w1") auto
  show ?thesis
  proof (cases res)
    case (Inl x)
    have "x = HTTPException 500 ''Failed to scrape the product data''"
      using scrape_error_generic [of e "req_url r" ?w1 x] s Inl by simp
    then show ?thesis
      using create_ad_scrape_failed [OF assms(1), of e w x w'] s Inl assms(2)
      by (simp add: on_error_def)
  next
    case (Inr pd)
    then show ?thesis
      using create_ad_scrape_ok [OF assms(1), of e w pd w'] s assms(2) by auto
  qed
qed

lemma create_ad_csv:
  assumes "req_url r \<noteq> []"
  shows "csv_file (snd (create_ad e r w)) =
         csv_file (snd (scrape_amazon_product e (req_url r)
                          (print (''Received URL: '' @ req_url r) w)))"
proof -
  let ?w1 = "print (''Received URL: '' @ req_url r) w"
  obtain res w' where s: "scrape_amazon_product e (req_url r) ?w1 = (res, w')"
    by (cases "scrape_amazon_product e (req_url r) ?w1") auto
  show ?thesis
  proof (cases res)
    case (Inl x)
    then show ?thesis
      using create_ad_scrape_failed [OF assms, of e w x w'] s
      by (simp add: on_error_def print_def)
  next
    case (Inr pd)
    then show ?thesis
      using create_ad_scrape_ok [OF assms, of e w pd w'] s by (auto simp: print_def)
  qed
qed

lemma create_ad_fetch_or_parse_failed:
  assumes "req_url r \<noteq> []"
    and "scrape_try e (req_url r) (print (''Received URL: '' @ req_url r) w) =
           (Inl c, (print (''Received URL: '' @ req_url r) w)\<lparr>fetched := fetched w @ [req_url r]\<rparr>)"
  shows "create_ad e r w =
     (Inl (HTTPException 500
        (''Error generating ad: '' @ str_HTTPException e 500 ''Failed to scrape the product data'')),
      w\<lparr>stdout := stdout w @
           [''Received URL: '' @ req_url r,
            ''Error scraping product data: '' @ str_exn e c,
            ''Error generating ad: '' @ str_HTTPException e 500 ''Failed to scrape the product data''],
        fetched := fetched w @ [req_url r]\<rparr>)"
  using create_ad_scrape_failed [OF assms(1) scrape_failed [OF assms(2)]]
  by (simp add: on_error_def print_def)

section \<open>C5: failures reported to the caller\<close>

text \<open>
  Claim C5. For a request with a URL, every error that create_ad returns is the
  HTTPException with status 500 and one fixed detail: "Error generating ad: " followed by
  the text of the HTTPException that scrape_amazon_product raises, whose detail is "Failed
  to scrape the product data". The composer never fails, so a failure is a failure of the
  extraction. When the fetch or the parser raises with a cause, the text of the cause is
  printed to standard output, in the line "Error scraping product data: ...", and the
  error returned is the fixed one, which does not depend on the cause.
\<close>

theorem failures_are_generic:
  assumes "req_url r \<noteq> []"
  shows "(\<forall>err. fst (create_ad e r w) = Inl err \<longrightarrow>
            err = HTTPException 500
              (''Error generating ad: ''
               @ str_HTTPException e 500 ''Failed to scrape the product data''))
     \<and> (\<forall>body c. requests_get e (req_url r) = Inl c
                 \<or> requests_get e (req_url r) = Inr body \<and> BeautifulSoup e body = Inl c \<longrightarrow>
            create_ad e r w =
              (Inl (HTTPException 500
                 (''Error generating ad: ''
                  @ str_HTTPException e 500 ''Failed to scrape the product data'')),
               w\<lparr>stdout := stdout w @
                    [''Received URL: '' @ req_url r,
                     ''Error scraping product data: '' @ str_exn e c,
                     ''Error generating ad: ''
                     @ str_HTTPException e 500 ''Failed to scrape the product data''],
                 fetched := fetched w @ [req_url r]\<rparr>))"
proof (intro conjI allI impI)
  fix err
  assume "fst (create_ad e r w) = Inl err"
  then show "err = HTTPException 500
              (''Error generating ad: ''
               @ str_HTTPException e 500 ''Failed to scrape the product data'')"
    using assms by (rule create_ad_error_generic [rotated])
next
  fix body c
  let ?w1 = "print (''Received URL: '' @ req_url r) w"
  assume f: "requests_get e (req_url r) = Inl c
           \<or> requests_get e (req_url r) = Inr body \<and> BeautifulSoup e body = Inl c"
  have "scrape_try e (req_url r) ?w1 = (Inl c, ?w1\<lparr>fetched := fetched w @ [req_url r]\<rparr>)"
    using f by (auto simp: scrape_try_def Let_def print_def)
  then show "create_ad e r w =
              (Inl (HTTPException 500
                 (''Error generating ad: ''
                  @ str_HTTPException e 500 ''Failed to scrape the product data'')),
               w\<lparr>stdout := stdout w @
                    [''Received URL: '' @ req_url r,
                     ''Error scraping product data: '' @ str_exn e c,
                     ''Error generating ad: ''
                     @ str_HTTPException e 500 ''Failed to scrape the product data''],
                 fetched := fetched w @ [req_url r]\<rparr>)"
    using assms by (rule create_ad_fetch_or_parse_failed [rotated])
qed

theorem failures_are_generic_witness:
  "req_url widget_request \<noteq> []
   \<and> requests_get offline (req_url widget_request) = Inl (LibraryError ''Connection refused'')
   \<and> create_ad offline widget_request fresh =
       (Inl (HTTPException 500 ''Error generating ad: Failed to scrape the product data''),
        \<lparr>stdout = [''Received URL: https://www.amazon.com/dp/X'',
                   ''Error scraping product data: Connection refused'',
                   ''Error generating ad: Failed to scrape the product data''],
         csv_file = None, fetched = [''https://www.amazon.com/dp/X'']\<rparr>)
   \<and> requests_get unparsable (req_url widget_request) = Inr ''<html></html>''
   \<and> BeautifulSoup unparsable ''<html></html>'' = Inl (LibraryError ''Could not find a tree builder'')
   \<and> create_ad unparsable widget_request fresh =
       (Inl (HTTPException 500 ''Error generating ad: Failed to scrape the product data''),
        \<lparr>stdout = [''Received URL: https://www.amazon.com/dp/X'',
                   ''Error scraping product data: Could not find a tree builder'',
                   ''Error generating ad: Failed to scrape the product data''],
         csv_file = None, fetched = [''https://www.amazon.com/dp/X'']\<rparr>)"
  using failures_are_generic [of widget_request offline fresh]
    failures_are_generic [of widget_request unparsable fresh]
  by (simp add: eval_defs create_ad_def on_error_def widget_request_def)

section \<open>C7: the empty URL\<close>

text \<open>
  Claim C7. For a request whose URL is the empty string, create_ad returns the
  HTTPException with status 400 and leaves the state as it was: nothing is fetched,
  nothing is written to the log file and nothing is printed. Every error that create_ad
  returns for a non-empty URL has status 500 and comes after a fetch of that URL.
\<close>

theorem empty_url_rejected:
  "(req_url r = [] \<longrightarrow> create_ad e r w = (Inl (HTTPException 400 ''No URL provided''), w))
   \<and> (req_url r \<noteq> [] \<and> fst (create_ad e r w) = Inl (HTTPException code detail) \<longrightarrow>
        code = 500 \<and> code \<noteq> 400
        \<and> fetched (snd (create_ad e r w)) = fetched w @ [req_url r]
        \<and> stdout (snd (create_ad e r w)) \<noteq> stdout w)"
proof (intro conjI impI)
  assume "req_url r = []"
  then show "create_ad e r w = (Inl (HTTPException 400 ''No URL provided''), w)"
    by (simp add: create_ad_def)
next
  let ?w1 = "print (''Received URL: '' @ req_url r) w"
  assume a: "req_url r \<noteq> [] \<and> fst (create_ad e r w) = Inl (HTTPException code detail)"
  then have "HTTPException code detail = HTTPException 500
           (''Error generating ad: '' @ str_HTTPException e 500 ''Failed to scrape the product data'')"
    using create_ad_error_generic [of r e w "HTTPException code detail"] by simp
  then have c: "code = 500" by simp
  obtain res w' where s: "scrape_amazon_product e (req_url r) ?w1 = (res, w')"
    by (cases "scrape_amazon_product e (req_url r) ?w1") auto
  have res: "\<exists>x. res = Inl x"
  proof (cases res)
    case (Inr pd)
    then show ?thesis
      using create_ad_scrape_ok [of r e w pd w'] s a by auto
  qed simp
  then obtain x where x: "res = Inl x" by blast
  have w': "fetched w' = fetched w @ [req_url r] \<and> stdout w' \<noteq> stdout w"
    using s x
    by (cases rule: scrape_try_cases [of e "req_url r" ?w1])
       (auto simp: scrape_failed scrape_ok print_def)
  have "create_ad e r w = on_error e x w'"
    using create_ad_scrape_failed [of r e w x w'] s x a by simp
  then have 1: "fetched (snd (create_ad e r w)) = fetched w'"
    and 2: "stdout (snd (create_ad e r w)) = stdout w' @ [''Error generating ad: '' @ str_exn e x]"
    by (simp_all add: on_error_def print_def)
  show "code = 500" by (rule c)
  show "code \<noteq> 400" using c by simp
  show "fetched (snd (create_ad e r w)) = fetched w @ [req_url r]" using 1 w' by simp
  show "stdout (snd (create_ad e r w)) \<noteq> stdout w"
  proof -
    obtain l where "stdout w' = stdout w @ [''Received URL: '' @ req_url r, l]"
      using s x
      by (cases rule: scrape_try_cases [of e "req_url r" ?w1])
         (auto simp: scrape_failed scrape_ok print_def)
    then show ?thesis using 2 by simp
  qed
qed

theorem empty_url_rejected_witness:
  "req_url empty_request = []
   \<and> create_ad (serving widget_soup 0) empty_request fresh =
       (Inl (HTTPException 400 ''No URL provided''), fresh)
   \<and> req_url widget_request \<noteq> []
   \<and> fst (create_ad offline widget_request fresh) =
       Inl (HTTPException 500 ''Error generating ad: Failed to scrape the product data'')
   \<and> fetched (snd (create_ad offline widget_request fresh)) = [''https://www.amazon.com/dp/X'']"
  using empty_url_rejected [of empty_request "serving widget_soup 0" fresh]
    empty_url_rejected [of widget_request offline fresh 500
      "''Error generating ad: Failed to scrape the product data''"]
  by (simp add: eval_defs create_ad_def on_error_def widget_request_def empty_request_def)

section \<open>C8: the log file\<close>

text \<open>
  Claim C8. Every extraction that succeeds appends one row to product_details.csv, after
  the header row Title, Rating, Price, Image URL, Description, Product URL if the file did
  not exist. The row holds, in that order, the title, the rating, the price, the image URL,
  the description as scraped (not the placeholder) and the URL, a None written as the
  empty string. An extraction that fails leaves the file as it was. Nothing that create_ad
  does after the extraction changes the file, whether it then succeeds or fails.
\<close>

theorem extraction_appends_row:
  "(fst (scrape_amazon_product e u w) = Inr pd \<longrightarrow>
      (\<exists>body soup. requests_get e u = Inr body \<and> BeautifulSoup e body = Inr soup
         \<and> csv_file (snd (scrape_amazon_product e u w)) =
             Some ((case csv_file w of None \<Rightarrow> [headers] | Some rows \<Rightarrow> rows)
                   @ [[productName pd, cell (productRating pd), cell (productPrice pd),
                       cell (productImage pd), cell (scrape_description soup), u]])))
   \<and> (fst (scrape_amazon_product e u w) = Inl err \<longrightarrow>
        csv_file (snd (scrape_amazon_product e u w)) = csv_file w)
   \<and> headers = [''Title'', ''Rating'', ''Price'', ''Image URL'', ''Description'', ''Product URL'']
   \<and> (req_url r \<noteq> [] \<longrightarrow>
        csv_file (snd (create_ad e r w)) =
          csv_file (snd (scrape_amazon_product e (req_url r)
                           (print (''Received URL: '' @ req_url r) w))))"
proof -
  have 1: "fst (scrape_amazon_product e u w) = Inr pd \<longrightarrow>
      (\<exists>body soup. requests_get e u = Inr body \<and> BeautifulSoup e body = Inr soup
         \<and> csv_file (snd (scrape_amazon_product e u w)) =
             Some ((case csv_file w of None \<Rightarrow> [headers] | Some rows \<Rightarrow> rows)
                   @ [[productName pd, cell (productRating pd), cell (productPrice pd),
                       cell (productImage pd), cell (scrape_description soup), u]]))"
  proof (cases rule: scrape_try_cases [of e u w])
    case (ok body soup b)
    have "fst (scrape_amazon_product e u w) = Inr pd \<longrightarrow>
          csv_file (snd (scrape_amazon_product e u w)) =
             Some ((case csv_file w of None \<Rightarrow> [headers] | Some rows \<Rightarrow> rows)
                   @ [[productName pd, cell (productRating pd), cell (productPrice pd),
                       cell (productImage pd), cell (scrape_description soup), u]])"
      by (auto simp: scrape_ok [OF ok] save_to_csv_def csv_row_def Let_def
               split: option.splits)
    then show ?thesis using ok(1,2) by blast
  qed (simp_all add: scrape_failed)
  have 2: "fst (scrape_amazon_product e u w) = Inl err \<longrightarrow>
        csv_file (snd (scrape_amazon_product e u w)) = csv_file w"
    by (cases rule: scrape_try_cases [of e u w])
       (simp_all add: scrape_failed scrape_ok print_def)
  have 3: "headers = [''Title'', ''Rating'', ''Price'', ''Image URL'', ''Description'', ''Product URL'']"
    by (rule headers_def)
  have 4: "req_url r \<noteq> [] \<longrightarrow>
        csv_file (snd (create_ad e r w)) =
          csv_file (snd (scrape_amazon_product e (req_url r)
                           (print (''Received URL: '' @ req_url r) w)))"
    using create_ad_csv by blast
  show ?thesis using 1 2 3 4 by blast
qed

theorem extraction_appends_row_witness:
  "scrape_amazon_product (serving widget_soup 0) ''https://www.amazon.com/dp/X'' fresh =
     (Inr widget,
      \<lparr>stdout = [],
       csv_file = Some [[''Title'', ''Rating'', ''Price'', ''Image URL'', ''Description'', ''Product URL''],
                        [''Widget'', ''4.5'', ''$19.99'', ''https://img.example/w.jpg'', ''Sturdy.'',
                         ''https://www.amazon.com/dp/X'']],
       fetched = [''https://www.amazon.com/dp/X'']\<rparr>)
   \<and> csv_file (snd (scrape_amazon_product (serving unrated_soup 0) ''https://www.amazon.com/dp/X''
        \<lparr>stdout = [], csv_file = Some [headers], fetched = []\<rparr>)) =
       Some [headers, [''Widget'', [], [], [], [], ''https://www.amazon.com/dp/X'']]
   \<and> fst (scrape_amazon_product offline ''https://www.amazon.com/dp/X'' fresh) =
       Inl (HTTPException 500 ''Failed to scrape the product data'')
   \<and> csv_file (snd (scrape_amazon_product offline ''https://www.amazon.com/dp/X'' fresh)) = None
   \<and> req_url widget_request \<noteq> []
   \<and> csv_file (snd (create_ad (serving widget_soup 0) widget_request fresh)) =
       Some [headers,
             [''Widget'', ''4.5'', ''$19.99'', ''https://img.example/w.jpg'', ''Sturdy.'',
              ''https://www.amazon.com/dp/X'']]"
proof -
  have a: "scrape_amazon_product (serving widget_soup 0) ''https://www.amazon.com/dp/X'' fresh =
     (Inr widget,
      \<lparr>stdout = [],
       csv_file = Some [[''Title'', ''Rating'', ''Price'', ''Image URL'', ''Description'', ''Product URL''],
                        [''Widget'', ''4.5'', ''$19.99'', ''https://img.example/w.jpg'', ''Sturdy.'',
                         ''https://www.amazon.com/dp/X'']],
       fetched = [''https://www.amazon.com/dp/X'']\<rparr>)"
    by (simp add: eval_defs widget_def)
  have b: "csv_file (snd (scrape_amazon_product (serving unrated_soup 0) ''https://www.amazon.com/dp/X''
        \<lparr>stdout = [], csv_file = Some [headers], fetched = []\<rparr>)) =
       Some [headers, [''Widget'', [], [], [], [], ''https://www.amazon.com/dp/X'']]"
    by (simp add: eval_defs)
  have c: "fst (scrape_amazon_product offline ''https://www.amazon.com/dp/X'' fresh) =
       Inl (HTTPException 500 ''Failed to scrape the product data'')"
    by (simp add: eval_defs)
  have d: "csv_file (snd (scrape_amazon_product offline ''https://www.amazon.com/dp/X'' fresh)) = None"
    by (simp add: eval_defs)
  have e: "req_url widget_request \<noteq> []"
    by (simp add: widget_request_def)
  have "csv_file (snd (create_ad (serving widget_soup 0) widget_request fresh)) =
          csv_file (snd (scrape_amazon_product (serving widget_soup 0) (req_url widget_request)
                           (print (''Received URL: '' @ req_url widget_request) fresh)))"
    using extraction_appends_row [of "serving widget_soup 0" "''https://www.amazon.com/dp/X''" fresh
      widget "HTTPException 500 ''Failed to scrape the product data''" widget_request] e
    by blast
  also have "\<dots> = Some [headers,
             [''Widget'', ''4.5'', ''$19.99'', ''https://img.example/w.jpg'', ''Sturdy.'',
              ''https://www.amazon.com/dp/X'']]"
    by (simp add: eval_defs widget_request_def)
  finally have f: "csv_file (snd (create_ad (serving widget_soup 0) widget_request fresh)) =
       Some [headers,
             [''Widget'', ''4.5'', ''$19.99'', ''https://img.example/w.jpg'', ''Sturdy.'',
              ''https://www.amazon.com/dp/X'']]" .
  show ?thesis by (intro conjI a b c d e f)
qed

end
